theory Spec2Isabelle
  imports Main "HOL-Library.Sublist" "HOL-Library.Multiset"
begin

section \<open>Python strings\<close>

text \<open>
  A Python \<^verbatim>\<open>str\<close> is modelled as a \<^typ>\<open>string\<close>, one \<^typ>\<open>char\<close> per code point, so the
  model covers the code points U+0000 to U+00FF (Latin-1, enough for the Portuguese
  texts of \<^verbatim>\<open>comandos.csv\<close>).  On these code points \<^verbatim>\<open>str.lower\<close> adds 32 to
  \<^verbatim>\<open>A\<close>--\<^verbatim>\<open>Z\<close> and to U+00C0--U+00DE except the multiplication sign U+00D7, and
  \<^verbatim>\<open>str.isspace\<close> holds of U+0009--U+000D, U+001C--U+0020, U+0085 and U+00A0.
\<close>

definition isupper :: "char \<Rightarrow> bool" where
  "isupper c =
     (let n = (of_char c :: nat)
      in (65 \<le> n \<and> n \<le> 90) \<or> (192 \<le> n \<and> n \<le> 222 \<and> n \<noteq> 215))"

definition lower_char :: "char \<Rightarrow> char" where
  "lower_char c = (if isupper c then char_of ((of_char c :: nat) + 32) else c)"

definition lower :: "string \<Rightarrow> string" where
  "lower s = map lower_char s"

definition isspace :: "char \<Rightarrow> bool" where
  "isspace c =
     (let n = (of_char c :: nat)
      in (9 \<le> n \<and> n \<le> 13) \<or> (28 \<le> n \<and> n \<le> 32) \<or> n = 133 \<or> n = 160)"

text \<open>\<^verbatim>\<open>s.strip()\<close>: leading and trailing whitespace removed.\<close>

definition strip :: "string \<Rightarrow> string" where
  "strip s = rev (dropWhile isspace (rev (dropWhile isspace s)))"

text \<open>\<^verbatim>\<open>pat in s\<close>: a left-to-right scan for the first position where \<open>pat\<close> starts.\<close>

fun str_find :: "string \<Rightarrow> string \<Rightarrow> bool" where
  "str_find pat [] = (pat = [])"
| "str_find pat (c # cs) = (prefix pat (c # cs) \<or> str_find pat cs)"

section \<open>Regular expressions behind \<^verbatim>\<open>Series.str.contains\<close>\<close>

text \<open>
  \<^verbatim>\<open>Series.str.contains(pat, na=False)\<close> is called with its default \<^verbatim>\<open>regex=True\<close>:
  pandas first compiles \<open>pat\<close> with \<^verbatim>\<open>re.compile\<close> and then tests every cell with
  \<^verbatim>\<open>search\<close>.  Three cases of the pattern are modelled:
  \<^item> no character of the pattern is special for \<^verbatim>\<open>re\<close>: the pattern is a literal and
    \<^verbatim>\<open>search\<close> is substring search;
  \<^item> the pattern has an opening parenthesis and neither a closing one, nor a backslash,
    nor an opening bracket that could escape or close it: \<^verbatim>\<open>re.compile\<close> raises
    \<^verbatim>\<open>re.error\<close> (an unterminated group);
  \<^item> any other pattern is handed to the parameter \<open>rx\<close>, which stands for the rest of the
    regular-expression engine: every theorem below holds for every such engine.
\<close>

datatype py_exception = Re_error | IndexError | TypeError | AttributeError | Csv_error string

type_synonym re_engine = "string \<Rightarrow> py_exception + (string \<Rightarrow> bool)"

definition special_chars :: "char list" where
  "special_chars = CHR 0x5C # ''.^$*+?{}[]|()''"

definition is_special :: "char \<Rightarrow> bool" where
  "is_special c = (c \<in> set special_chars)"

definition unterminated_group :: "string \<Rightarrow> bool" where
  "unterminated_group pat =
     (CHR ''('' \<in> set pat \<and> CHR '')'' \<notin> set pat \<and> CHR 0x5C \<notin> set pat \<and> CHR ''['' \<notin> set pat)"

definition re_compile :: "re_engine \<Rightarrow> string \<Rightarrow> py_exception + (string \<Rightarrow> bool)" where
  "re_compile rx pat =
     (if \<not> list_ex is_special pat then Inr (str_find pat)
      else if unterminated_group pat then Inl Re_error
      else rx pat)"

section \<open>The data frame and the application object\<close>

text \<open>
  A row of the data frame holds the four required columns \<^verbatim>\<open>comando\<close>,
  \<^verbatim>\<open>descri\<ccedil>\<atilde>o\<close>, \<^verbatim>\<open>ordem_import\<acirc>ncia\<close> and \<^verbatim>\<open>como_pode_ser_usado\<close>: three text cells
  and an integer.  \<^verbatim>\<open>pd.read_csv\<close> reads an empty cell of a text column as the float
  \<^verbatim>\<open>NaN\<close>, so a text cell is a string or \<open>NaN\<close>.
\<close>

datatype cell = Str string | NaN

record command_row =
  comando :: cell
  descricao :: cell
  ordem_importancia :: int
  como_pode_ser_usado :: cell

text \<open>
  A column in which \<^verbatim>\<open>read_csv\<close> found no text at all is not a text column: it gets the
  type \<^verbatim>\<open>float64\<close>, and the accessor \<^verbatim>\<open>.str\<close> raises \<^verbatim>\<open>AttributeError\<close> on it.  A
  column without rows, or with a string in some row, has the accessor, also on a part of
  the column that holds no string.  Filtering and sorting keep the type of a column.
\<close>

definition text_dtype :: "cell list \<Rightarrow> bool" where
  "text_dtype column = (column = [] \<or> list_ex (\<lambda>c. c \<noteq> NaN) column)"

text \<open>\<^verbatim>\<open>Series.str.lower()\<close> on one cell: a missing cell stays missing.\<close>

fun str_lower :: "cell \<Rightarrow> cell" where
  "str_lower (Str s) = Str (lower s)"
| "str_lower NaN = NaN"

text \<open>
  \<^verbatim>\<open>Series.str.contains(pat, na=False)\<close>: the pattern is compiled first, then every cell is
  searched; a missing cell gives \<^verbatim>\<open>False\<close>.
\<close>

definition str_contains :: "re_engine \<Rightarrow> string \<Rightarrow> cell list \<Rightarrow> py_exception + bool list" where
  "str_contains rx pat col =
     (case re_compile rx pat of
        Inl e \<Rightarrow> Inl e
      | Inr search \<Rightarrow> Inr (map (\<lambda>c. case c of Str s \<Rightarrow> search s | NaN \<Rightarrow> False) col))"

record GitCommandsApp =
  df :: "command_row list"

record filters =
  min_importance :: int
  max_importance :: int
  search_term :: string

text \<open>\<^verbatim>\<open>frame[mask]\<close>: the rows whose entry of the boolean mask is true, in order.\<close>

definition boolean_index :: "'a list \<Rightarrow> bool list \<Rightarrow> 'a list" where
  "boolean_index frame msk = map fst (filter snd (zip frame msk))"

text \<open>
  \<^verbatim>\<open>filter_commands\<close> reads \<^verbatim>\<open>self.df\<close> and assigns nothing to \<^verbatim>\<open>self\<close>; the object is
  returned beside the result.  The comparisons of the first mask are evaluated on the
  whole column.  Only when the search term is not empty, the two text columns are
  searched, \<^verbatim>\<open>comando\<close> first: the accessor \<^verbatim>\<open>.str\<close> is taken (and raises on a column
  that is not a text column), the cells are put in lower case, and the term is compiled
  (and may raise) and searched.
\<close>

definition filter_commands ::
  "re_engine \<Rightarrow> GitCommandsApp \<Rightarrow> filters \<Rightarrow> (py_exception + command_row list) \<times> GitCommandsApp" where
  "filter_commands rx self flt =
     (let filtered_df =
            boolean_index (df self)
              (map (\<lambda>r. min_importance flt \<le> ordem_importancia r \<and>
                         ordem_importancia r \<le> max_importance flt) (df self))
      in if search_term flt \<noteq> [] then
           (if \<not> text_dtype (map comando (df self)) then (Inl AttributeError, self)
            else
              (case str_contains rx (search_term flt)
                      (map (\<lambda>r. str_lower (comando r)) filtered_df) of
                 Inl e \<Rightarrow> (Inl e, self)
               | Inr m1 \<Rightarrow>
                   (if \<not> text_dtype (map descricao (df self)) then (Inl AttributeError, self)
                    else
                      (case str_contains rx (search_term flt)
                              (map (\<lambda>r. str_lower (descricao r)) filtered_df) of
                         Inl e \<Rightarrow> (Inl e, self)
                       | Inr m2 \<Rightarrow>
                           (Inr (boolean_index filtered_df (map2 (\<or>) m1 m2)), self)))))
         else (Inr filtered_df, self))"

section \<open>What the script shows and how it ends\<close>

text \<open>
  The Streamlit calls of the script are recorded as a list of elements, in the order of
  the calls.  A method ends in one of three ways: it returns, \<^verbatim>\<open>st.stop()\<close> unwinds the
  script (its \<^verbatim>\<open>StopException\<close> derives from \<^verbatim>\<open>BaseException\<close>, so no
  \<^verbatim>\<open>except Exception\<close> catches it), or an exception is raised.
\<close>

datatype message =
    File_not_found
  | Load_failed py_exception
  | Invalid_structure
  | App_failed py_exception

datatype element =
    Page_config
  | St_error message
  | St_info_reload
  | Header
  | Sidebar_filters_heading
  | Sidebar_statistics_heading
  | Metric_total nat
  | Metric_filtered nat
  | Distribution nat nat nat
  | Warning_none_found
  | Selector_heading
  | Selectbox "string list"
  | Command_heading string
  | Importance_badge string int
  | Description string
  | Usage_heading
  | St_code string
  | Welcome
  | Footer nat
  | Style

datatype 'a ctl = Return 'a | Stop | Raise py_exception

section \<open>The sidebar\<close>

text \<open>
  The keys of the dictionary \<^verbatim>\<open>importance_ranges\<close>, in its order; the selectbox
  returns one of them.
\<close>

datatype importance_level =
  Essenciais | Intermediarios | Avancados | Tecnicos | Especificos | Todos_os_comandos

fun importance_ranges :: "importance_level \<Rightarrow> int \<times> int" where
  "importance_ranges Essenciais = (1, 10)"
| "importance_ranges Intermediarios = (11, 30)"
| "importance_ranges Avancados = (31, 60)"
| "importance_ranges Tecnicos = (61, 100)"
| "importance_ranges Especificos = (101, 157)"
| "importance_ranges Todos_os_comandos = (1, 157)"

text \<open>
  \<open>selected_range\<close> is what the selectbox returns and \<open>text_input\<close> what the text
  input returns.
\<close>

definition render_sidebar_filters :: "importance_level \<Rightarrow> string \<Rightarrow> element list \<times> filters" where
  "render_sidebar_filters selected_range text_input =
     (let (min_imp, max_imp) = importance_ranges selected_range;
          search_term = strip (lower text_input)
      in ([Sidebar_filters_heading],
          \<lparr>min_importance = min_imp, max_importance = max_imp, search_term = search_term\<rparr>))"

section \<open>Statistics\<close>

definition essential :: "GitCommandsApp \<Rightarrow> nat" where
  "essential self =
     length (boolean_index (df self) (map (\<lambda>r. ordem_importancia r \<le> 10) (df self)))"

definition intermediate :: "GitCommandsApp \<Rightarrow> nat" where
  "intermediate self =
     length (boolean_index (df self)
       (map (\<lambda>r. ordem_importancia r > 10 \<and> ordem_importancia r \<le> 30) (df self)))"

definition advanced :: "GitCommandsApp \<Rightarrow> nat" where
  "advanced self =
     length (boolean_index (df self) (map (\<lambda>r. ordem_importancia r > 30) (df self)))"

definition render_statistics :: "GitCommandsApp \<Rightarrow> command_row list \<Rightarrow> element list" where
  "render_statistics self filtered_df =
     [Sidebar_statistics_heading,
      Metric_total (length (df self)),
      Metric_filtered (length filtered_df),
      Distribution (essential self) (intermediate self) (advanced self)]"

section \<open>Selecting a command\<close>

text \<open>The decimal digits of a natural number, most significant first.\<close>

fun digits :: "nat \<Rightarrow> string" where
  "digits n =
     (if n < 10 then [char_of (48 + n)]
      else digits (n div 10) @ [char_of (48 + n mod 10)])"

declare digits.simps [simp del]

text \<open>The format \<^verbatim>\<open>03d\<close>: the sign first, then zeros up to a width of three.\<close>

definition format_03d :: "int \<Rightarrow> string" where
  "format_03d n =
     (if n < 0
      then CHR ''-'' # replicate (2 - length (digits (nat (- n)))) CHR ''0'' @ digits (nat (- n))
      else replicate (3 - length (digits (nat n))) CHR ''0'' @ digits (nat n))"

text \<open>A cell inside an f-string: \<^verbatim>\<open>NaN\<close> is shown as \<open>nan\<close>.\<close>

definition format_cell :: "cell \<Rightarrow> string" where
  "format_cell c = (case c of Str s \<Rightarrow> s | NaN \<Rightarrow> ''nan'')"

text \<open>
  The label of a row.  The slice \<^verbatim>\<open>[:50]\<close> of a missing description raises
  \<^verbatim>\<open>TypeError\<close>: a float cannot be subscripted.
\<close>

definition display_text :: "command_row \<Rightarrow> py_exception + string" where
  "display_text row =
     (case descricao row of
        NaN \<Rightarrow> Inl TypeError
      | Str d \<Rightarrow>
          Inr (''#'' @ format_03d (ordem_importancia row) @ '' - '' @ format_cell (comando row) @
               '' - '' @ take 50 d @ ''...''))"

text \<open>The loop over the rows that fills \<^verbatim>\<open>command_options\<close>.\<close>

fun command_options :: "command_row list \<Rightarrow> py_exception + string list" where
  "command_options [] = Inr []"
| "command_options (row # rest) =
     (case display_text row of
        Inl e \<Rightarrow> Inl e
      | Inr label \<Rightarrow>
          (case command_options rest of
             Inl e \<Rightarrow> Inl e
           | Inr labels \<Rightarrow> Inr (label # labels)))"

text \<open>
  \<^verbatim>\<open>frame.iloc[i]\<close>: a negative position counts from the end, a position outside the
  frame raises \<^verbatim>\<open>IndexError\<close>.
\<close>

definition iloc :: "'a list \<Rightarrow> int \<Rightarrow> py_exception + 'a" where
  "iloc frame i =
     (let n = int (length frame);
          j = (if i < 0 then n + i else i)
      in if 0 \<le> j \<and> j < n then Inr (frame ! nat j) else Inl IndexError)"

text \<open>
  \<open>selected_index\<close> is what the selectbox over \<^verbatim>\<open>range(len(command_options))\<close>
  returns.  The result is the selected row (\<^verbatim>\<open>to_dict()\<close> of the row: its four
  fields), or \<^verbatim>\<open>None\<close>.
\<close>

definition render_command_selector ::
  "command_row list \<Rightarrow> int option \<Rightarrow> element list \<times> command_row option ctl" where
  "render_command_selector filtered_df selected_index =
     (if filtered_df = [] then ([Warning_none_found], Return None)
      else
        (case command_options filtered_df of
           Inl e \<Rightarrow> ([Selector_heading], Raise e)
         | Inr options \<Rightarrow>
             (let shown = [Selector_heading, Selectbox options]
              in case selected_index of
                   None \<Rightarrow> (shown, Return None)
                 | Some i \<Rightarrow>
                     (case iloc filtered_df i of
                        Inl e \<Rightarrow> (shown, Raise e)
                      | Inr row \<Rightarrow> (shown, Return (Some row))))))"

section \<open>The details of a command\<close>

definition get_importance_color :: "int \<Rightarrow> string" where
  "get_importance_color importance =
     (if importance \<le> 10 then ''#E74C3C''
      else if importance \<le> 30 then ''#F39C12''
      else if importance \<le> 60 then ''#3498DB''
      else if importance \<le> 100 then ''#27AE60''
      else ''#8E44AD'')"

text \<open>
  \<^verbatim>\<open>s.split(', ')\<close>: the text is scanned from the left; at each comma followed by a space
  the fragment read so far (kept reversed in \<open>acc\<close>) ends and both characters are
  skipped.
\<close>

fun split_acc :: "string \<Rightarrow> string \<Rightarrow> string list" where
  "split_acc acc (x # y # zs) =
     (if x = CHR '','' \<and> y = CHR '' '' then rev acc # split_acc [] zs
      else split_acc (x # acc) (y # zs))"
| "split_acc acc [x] = [rev (x # acc)]"
| "split_acc acc [] = [rev acc]"

definition split_comma_space :: "string \<Rightarrow> string list" where
  "split_comma_space s = split_acc [] s"

text \<open>The loop over \<^verbatim>\<open>usage_examples\<close>.\<close>

fun render_examples :: "string list \<Rightarrow> element list" where
  "render_examples [] = []"
| "render_examples (example # rest) =
     (let example' = strip example
      in if example' \<noteq> [] then St_code example' # render_examples rest
         else render_examples rest)"

text \<open>
  The heading, the badge, the description and the heading of the examples are shown
  before the usage text is split; \<^verbatim>\<open>.split\<close> of a missing usage cell raises
  \<^verbatim>\<open>AttributeError\<close>: a float has no such method.
\<close>

definition render_command_details :: "command_row \<Rightarrow> element list \<times> unit ctl" where
  "render_command_details selected_command =
     (let shown =
            [Command_heading (format_cell (comando selected_command)),
             Importance_badge (get_importance_color (ordem_importancia selected_command))
               (ordem_importancia selected_command),
             Description (format_cell (descricao selected_command)),
             Usage_heading]
      in case como_pode_ser_usado selected_command of
           NaN \<Rightarrow> (shown, Raise AttributeError)
         | Str usage \<Rightarrow> (shown @ render_examples (split_comma_space usage), Return ()))"

section \<open>Loading the data\<close>

text \<open>
  What the script finds at \<^verbatim>\<open>comandos.csv\<close>: no file, a file on which
  \<^verbatim>\<open>pd.read_csv\<close> raises (with the text of the exception), or a table with its column
  names and its rows.
\<close>

datatype csv_file =
    Missing
  | Unreadable string
  | Table "string list" "command_row list"

definition required_columns :: "string list" where
  "required_columns =
     [''comando'',
      ''descri'' @ [CHR 0xE7, CHR 0xE3] @ ''o'',
      ''ordem_import'' @ [CHR 0xE2] @ ''ncia'',
      ''como_pode_ser_usado'']"

text \<open>
  \<^verbatim>\<open>sort_values('ordem_import\<acirc>ncia')\<close> sorts with the default \<^verbatim>\<open>kind='quicksort'\<close>:
  pandas asks NumPy's \<^verbatim>\<open>argsort\<close> for the positions of the keys in ascending order and
  takes the rows at these positions; \<^verbatim>\<open>reset_index(drop=True)\<close> renumbers the index
  and leaves the rows alone.  NumPy's routine is the parameter \<open>argsort\<close>; what its
  documentation promises is \<open>argsort_contract\<close>: the result is a permutation of the
  positions that puts the keys in non-decreasing order.  (With such a result no position
  is outside the frame.)  The order it gives to equal keys is not documented.
\<close>

type_synonym argsort = "int list \<Rightarrow> nat list"

definition argsort_contract :: "argsort \<Rightarrow> bool" where
  "argsort_contract argsort =
     (\<forall>keys. mset (argsort keys) = mset [0..<length keys] \<and>
             sorted (map (\<lambda>i. keys ! i) (argsort keys)))"

definition sort_values :: "argsort \<Rightarrow> command_row list \<Rightarrow> command_row list" where
  "sort_values argsort frame =
     map (\<lambda>i. frame ! i) (argsort (map ordem_importancia frame))"

text \<open>\<open>columns\<close> is \<^verbatim>\<open>self.df.columns\<close>.\<close>

definition validate_data ::
  "argsort \<Rightarrow> string list \<Rightarrow> GitCommandsApp \<Rightarrow> element list \<times> GitCommandsApp ctl" where
  "validate_data argsort columns self =
     (if \<not> list_all (\<lambda>col. col \<in> set columns) required_columns
      then ([St_error Invalid_structure], Stop)
      else ([], Return (self\<lparr>df := sort_values argsort (df self)\<rparr>)))"

definition load_data :: "argsort \<Rightarrow> csv_file \<Rightarrow> element list \<times> GitCommandsApp ctl" where
  "load_data argsort file =
     (case file of
        Missing \<Rightarrow> ([St_error File_not_found], Stop)
      | Unreadable txt \<Rightarrow> ([St_error (Load_failed (Csv_error txt))], Stop)
      | Table columns frame \<Rightarrow>
          (case validate_data argsort columns \<lparr>df = frame\<rparr> of
             (shown, Raise e) \<Rightarrow> (shown @ [St_error (Load_failed e)], Stop)
           | (shown, r) \<Rightarrow> (shown, r)))"

text \<open>\<^verbatim>\<open>GitCommandsApp.__init__\<close>\<close>

definition init :: "argsort \<Rightarrow> csv_file \<Rightarrow> element list \<times> GitCommandsApp ctl" where
  "init argsort file =
     (case load_data argsort file of (shown, r) \<Rightarrow> (Page_config # shown, r))"

section \<open>The script\<close>

record user_input =
  selected_range :: importance_level
  text_input :: string
  selected_index :: "int option"

definition run :: "re_engine \<Rightarrow> GitCommandsApp \<Rightarrow> user_input \<Rightarrow> element list \<times> unit ctl" where
  "run rx self inp =
     (let (shown_f, flt) = render_sidebar_filters (selected_range inp) (text_input inp);
          shown1 = Header # shown_f
      in case filter_commands rx self flt of
           (Inl e, self') \<Rightarrow> (shown1, Raise e)
         | (Inr filtered_df, self') \<Rightarrow>
             (let shown2 = shown1 @ render_statistics self' filtered_df;
                  (shown_s, selected_command) =
                     render_command_selector filtered_df (selected_index inp);
                  footer = [Footer (length (df self'))]
              in case selected_command of
                   Raise e \<Rightarrow> (shown2 @ shown_s, Raise e)
                 | Stop \<Rightarrow> (shown2 @ shown_s, Stop)
                 | Return (Some row) \<Rightarrow>
                     (case render_command_details row of
                        (shown_d, Return u) \<Rightarrow> (shown2 @ shown_s @ shown_d @ footer, Return ())
                      | (shown_d, r) \<Rightarrow> (shown2 @ shown_s @ shown_d, r))
                 | Return None \<Rightarrow> (shown2 @ shown_s @ [Welcome] @ footer, Return ())))"

text \<open>
  \<^verbatim>\<open>main\<close> catches every \<^verbatim>\<open>Exception\<close>; a stop goes through it.
\<close>

definition main ::
  "re_engine \<Rightarrow> argsort \<Rightarrow> csv_file \<Rightarrow> user_input \<Rightarrow> element list \<times> unit ctl" where
  "main rx argsort file inp =
     (case init argsort file of
        (shown, Stop) \<Rightarrow> (shown, Stop)
      | (shown, Raise e) \<Rightarrow> (shown @ [St_error (App_failed e), St_info_reload], Return ())
      | (shown, Return app) \<Rightarrow>
          (case run rx app inp of
             (shown', Stop) \<Rightarrow> (shown @ shown', Stop)
           | (shown', Raise e) \<Rightarrow>
               (shown @ shown' @ [St_error (App_failed e), St_info_reload], Return ())
           | (shown', Return u) \<Rightarrow> (shown @ shown', Return ())))"

text \<open>The module: \<^verbatim>\<open>main()\<close>, then the style sheet.\<close>

definition script ::
  "re_engine \<Rightarrow> argsort \<Rightarrow> csv_file \<Rightarrow> user_input \<Rightarrow> element list \<times> unit ctl" where
  "script rx argsort file inp =
     (case main rx argsort file inp of
        (shown, Return u) \<Rightarrow> (shown @ [Style], Return ())
      | (shown, r) \<Rightarrow> (shown, r))"

section \<open>Notions of the specification and example data\<close>

text \<open>
  The inclusion rule of the specification's filter, in its words: the rank lies in
  \<open>[min_rank, max_rank]\<close>, and the search term is empty or is a case-insensitive
  substring of the name or of the description.  \<^const>\<open>sublist\<close> is the contiguous
  substring relation; nothing is a substring of a missing cell.
\<close>

definition cell_contains :: "string \<Rightarrow> cell \<Rightarrow> bool" where
  "cell_contains needle c = (case c of Str s \<Rightarrow> sublist needle (lower s) | NaN \<Rightarrow> False)"

definition occurs_ci :: "string \<Rightarrow> cell \<Rightarrow> bool" where
  "occurs_ci needle c = cell_contains (lower needle) c"

definition spec_filter :: "command_row list \<Rightarrow> int \<Rightarrow> int \<Rightarrow> string \<Rightarrow> command_row list" where
  "spec_filter entries min_rank max_rank needle =
     filter (\<lambda>e. min_rank \<le> ordem_importancia e \<and> ordem_importancia e \<le> max_rank \<and>
                 (needle = [] \<or> occurs_ci needle (comando e) \<or> occurs_ci needle (descricao e)))
       entries"

text \<open>
  An engine for closed examples whose search terms never reach the engine: it rejects
  every pattern.
\<close>

definition no_engine :: re_engine where
  "no_engine pat = Inl Re_error"

definition git_init :: command_row where
  "git_init =
     \<lparr>comando = Str ''git init'', descricao = Str ''Inicializa um novo repositorio Git'',
      ordem_importancia = 1,
      como_pode_ser_usado = Str ''git init, git init <diretorio>''\<rparr>"

definition git_commit :: command_row where
  "git_commit =
     \<lparr>comando = Str ''git commit'', descricao = Str ''Grava as mudancas no repositorio'',
      ordem_importancia = 5,
      como_pode_ser_usado = Str ''git commit -m mensagem, git commit --amend''\<rparr>"

definition git_rebase :: command_row where
  "git_rebase =
     \<lparr>comando = Str ''git rebase'', descricao = Str ''Reaplica commits sobre outra base'',
      ordem_importancia = 50,
      como_pode_ser_usado = Str ''git rebase main,  ,   git rebase -i HEAD~3  ''\<rparr>"

definition git_bisect :: command_row where
  "git_bisect =
     \<lparr>comando = Str ''git bisect'', descricao = Str ''Busca binaria por um commit'',
      ordem_importancia = 158, como_pode_ser_usado = Str ''git bisect start''\<rparr>"

text \<open>A row whose description cell is empty in the file, and one whose usage cell is.\<close>

definition git_log :: command_row where
  "git_log =
     \<lparr>comando = Str ''git log'', descricao = NaN,
      ordem_importancia = 7, como_pode_ser_usado = Str ''git log --oneline''\<rparr>"

definition git_status :: command_row where
  "git_status =
     \<lparr>comando = Str ''git status'', descricao = Str ''Mostra o estado da arvore de trabalho'',
      ordem_importancia = 3, como_pode_ser_usado = NaN\<rparr>"

definition example_input :: user_input where
  "example_input =
     \<lparr>selected_range = Todos_os_comandos, text_input = [], selected_index = Some 0\<rparr>"

text \<open>\<^verbatim>\<open>', '.join(fragments)\<close>, the inverse of splitting.\<close>

fun join_comma_space :: "string list \<Rightarrow> string" where
  "join_comma_space [] = []"
| "join_comma_space [f] = f"
| "join_comma_space (f # g # fs) = f @ '', '' @ join_comma_space (g # fs)"

text \<open>
  The load errors of the specification: the file is missing, its content cannot be
  parsed, or a required column is absent; with the message shown for each.
\<close>

definition load_error :: "csv_file \<Rightarrow> message option" where
  "load_error file =
     (case file of
        Missing \<Rightarrow> Some File_not_found
      | Unreadable txt \<Rightarrow> Some (Load_failed (Csv_error txt))
      | Table columns frame \<Rightarrow>
          (if set required_columns \<subseteq> set columns then None else Some Invalid_structure))"

text \<open>
  A sorting routine that meets \<^const>\<open>argsort_contract\<close>, for closed examples: an
  insertion sort of the positions.
\<close>

definition stable_argsort :: argsort where
  "stable_argsort keys = sort_key (\<lambda>i. keys ! i) [0..<length keys]"

section \<open>Properties\<close>

subsection \<open>Masks, substring search and lower case\<close>

lemma boolean_index_map: "boolean_index xs (map P xs) = filter P xs"
  unfolding boolean_index_def by (induction xs) auto

lemma boolean_index_map2:
  "boolean_index xs (map2 (\<or>) (map P xs) (map Q xs)) = filter (\<lambda>x. P x \<or> Q x) xs"
  unfolding boolean_index_def by (induction xs) auto

lemma str_find_sublist: "str_find pat s = sublist pat s"
  by (induction s) (auto simp: sublist_Cons_right)

lemma isspace_not_upper: "isspace c \<Longrightarrow> \<not> isupper c"
  by (auto simp: isspace_def isupper_def Let_def)

lemma lower_char_space: "isspace c \<Longrightarrow> lower_char c = c"
  by (simp add: lower_char_def isspace_not_upper)

lemma isspace_lower_char: "isspace (lower_char c) = isspace c"
  by (auto simp: lower_char_def isspace_def isupper_def Let_def of_char_of)

lemma isupper_lower_char: "\<not> isupper (lower_char c)"
  by (auto simp: lower_char_def isupper_def Let_def of_char_of)

lemma lower_char_idem: "lower_char (lower_char c) = lower_char c"
  using isupper_lower_char [of c] by (simp add: lower_char_def [of "lower_char c"])

lemma lower_idem: "lower (lower s) = lower s"
  by (simp add: lower_def lower_char_idem)

lemma dropWhile_lower: "dropWhile isspace (lower s) = lower (dropWhile isspace s)"
  by (induction s) (auto simp: lower_def isspace_lower_char)

lemma lower_strip: "lower (strip s) = strip (lower s)"
proof -
  have r: "lower (rev t) = rev (lower t)" for t by (simp add: lower_def rev_map)
  have "lower (strip s) = rev (lower (dropWhile isspace (rev (dropWhile isspace s))))"
    by (simp add: strip_def r)
  also have "\<dots> = rev (dropWhile isspace (rev (dropWhile isspace (lower s))))"
    by (simp only: dropWhile_lower [symmetric] r)
  finally show ?thesis by (simp add: strip_def)
qed

text \<open>The term the sidebar delivers is in lower case.\<close>

lemma sidebar_term_lower: "lower (strip (lower s)) = strip (lower s)"
  by (simp add: lower_strip lower_idem)

lemma strip_whitespace:
  assumes "list_all isspace s"
  shows "strip (lower s) = []"
proof -
  from assms have l: "lower s = s"
    by (induction s) (auto simp: lower_def lower_char_space)
  from assms have d: "dropWhile isspace s = []"
    by (simp add: list_all_iff dropWhile_eq_Nil_conv)
  show ?thesis by (simp add: strip_def l d)
qed

text \<open>
  What \<^const>\<open>strip\<close> removes is whitespace at both ends, and all of it: the result
  neither starts nor ends with whitespace.
\<close>

lemma rev_dropWhile_takeWhile:
  "u = rev (dropWhile P (rev u)) @ rev (takeWhile P (rev u))"
  by (metis rev_append rev_rev_ident takeWhile_dropWhile_id)

lemma strip_sandwich:
  "\<exists>pre post. list_all isspace pre \<and> list_all isspace post \<and> s = pre @ strip s @ post"
proof -
  let ?t = "dropWhile isspace s"
  let ?pre = "takeWhile isspace s"
  let ?post = "rev (takeWhile isspace (rev ?t))"
  have t: "?t = strip s @ ?post"
    unfolding strip_def by (rule rev_dropWhile_takeWhile)
  have "s = ?pre @ ?t" by simp
  with t have "s = ?pre @ strip s @ ?post" by simp
  moreover have "list_all isspace ?pre"
    by (auto simp: list_all_iff dest: set_takeWhileD)
  moreover have "list_all isspace ?post"
    by (auto simp: list_all_iff dest: set_takeWhileD)
  ultimately show ?thesis by blast
qed

lemma strip_ends:
  assumes "strip s \<noteq> []"
  shows "\<not> isspace (hd (strip s)) \<and> \<not> isspace (last (strip s))"
proof -
  let ?t = "dropWhile isspace s"
  let ?u = "dropWhile isspace (rev ?t)"
  from assms have u: "?u \<noteq> []" by (simp add: strip_def)
  from u have t: "?t \<noteq> []"
    by (metis dropWhile.simps(1) rev.simps(1))
  from u have "\<not> isspace (hd ?u)" by (rule hd_dropWhile)
  then have l: "\<not> isspace (last (strip s))"
    using u by (simp add: strip_def last_rev)
  have "last ?u = last (rev ?t)"
    using u by (metis last_appendR takeWhile_dropWhile_id)
  then have "hd (strip s) = hd ?t"
    using u t by (simp add: strip_def hd_rev last_rev)
  moreover from t have "\<not> isspace (hd ?t)" by (rule hd_dropWhile)
  ultimately show ?thesis using l by simp
qed

lemma set_strip: "x \<in> set (strip s) \<Longrightarrow> x \<in> set s"
  unfolding strip_def set_rev by (metis set_dropWhileD set_rev)

subsection \<open>The filter\<close>

text \<open>
  What the filter computes for a search term without special characters, when the term
  is empty or the two searched columns are text columns.
\<close>

lemma filter_commands_literal:
  assumes "\<not> list_ex is_special (search_term flt)"
    and "search_term flt = [] \<or>
         (text_dtype (map comando (df self)) \<and> text_dtype (map descricao (df self)))"
  shows "fst (filter_commands rx self flt) =
     Inr (filter (\<lambda>r. (min_importance flt \<le> ordem_importancia r \<and>
                        ordem_importancia r \<le> max_importance flt) \<and>
                     (search_term flt = [] \<or> cell_contains (search_term flt) (comando r) \<or>
                        cell_contains (search_term flt) (descricao r)))
            (df self))"
proof (cases "search_term flt = []")
  case True
  then show ?thesis
    by (simp add: filter_commands_def boolean_index_map)
next
  case False
  with assms(2) have t: "text_dtype (map comando (df self))"
    "text_dtype (map descricao (df self))"
    by simp_all
  have c: "re_compile rx (search_term flt) = Inr (str_find (search_term flt))"
    using assms(1) by (simp add: re_compile_def)
  have s: "(case str_lower c of Str s \<Rightarrow> str_find p s | NaN \<Rightarrow> False) = cell_contains p c"
    for p c
    by (cases c) (simp_all add: cell_contains_def str_find_sublist)
  have m: "map (\<lambda>c. case c of Str s \<Rightarrow> str_find p s | NaN \<Rightarrow> False)
             (map (\<lambda>r. str_lower (f r)) xs) = map (\<lambda>r. cell_contains p (f r)) xs"
    for p f and xs :: "command_row list"
    by (simp add: s comp_def)
  show ?thesis
    using False t
    by (simp add: filter_commands_def Let_def str_contains_def c m boolean_index_map
        boolean_index_map2 del: map_map)
qed

lemma filter_commands_empty_term:
  "search_term flt = [] \<Longrightarrow>
   fst (filter_commands rx self flt) =
     Inr (filter (\<lambda>r. min_importance flt \<le> ordem_importancia r \<and>
                       ordem_importancia r \<le> max_importance flt) (df self))"
  by (simp add: filter_commands_def boolean_index_map)

text \<open>A frame without missing text cells has text columns.\<close>

lemma text_dtype_present: "list_all (\<lambda>r. f r \<noteq> NaN) frame \<Longrightarrow> text_dtype (map f frame)"
  by (cases frame) (auto simp: text_dtype_def)

text \<open>
  C1 (as amended).  For every data frame, bounds and search term that is in lower case
  (as the sidebar delivers it) and has no special character of regular expressions, the
  filter returns exactly the rows whose rank lies between the bounds and for which the
  term is empty or occurs, ignoring case, in the name or in the description (nothing
  occurs in a missing cell); the rows keep their order.  For a term that is not empty
  the two searched columns are text columns.
\<close>

theorem filter_commands_lowercase_literal:
  assumes "\<not> list_ex is_special (search_term flt)"
    and "lower (search_term flt) = search_term flt"
    and "search_term flt = [] \<or>
         (text_dtype (map comando (df self)) \<and> text_dtype (map descricao (df self)))"
  shows "fst (filter_commands rx self flt) =
           Inr (spec_filter (df self) (min_importance flt) (max_importance flt) (search_term flt))"
  unfolding filter_commands_literal [OF assms(1) assms(3)] spec_filter_def occurs_ci_def assms(2)
  by (simp add: conj_assoc)

text \<open>
  C1, an instance: the search for \<open>init\<close> among four commands, one of them without a
  description.
\<close>

theorem filter_commands_lowercase_literal_witness:
  "\<not> list_ex is_special ''init'' \<and> lower ''init'' = ''init'' \<and>
   text_dtype (map comando [git_init, git_log, git_commit, git_rebase]) \<and>
   text_dtype (map descricao [git_init, git_log, git_commit, git_rebase]) \<and>
   fst (filter_commands no_engine \<lparr>df = [git_init, git_log, git_commit, git_rebase]\<rparr>
          \<lparr>min_importance = 1, max_importance = 157, search_term = ''init''\<rparr>)
     = Inr [git_init] \<and>
   spec_filter [git_init, git_log, git_commit, git_rebase] 1 157 ''init'' = [git_init]"
proof -
  let ?flt = "\<lparr>min_importance = 1, max_importance = 157, search_term = ''init''\<rparr>"
  let ?self = "\<lparr>df = [git_init, git_log, git_commit, git_rebase]\<rparr>"
  have a: "\<not> list_ex is_special (search_term ?flt)"
    by code_simp
  have b: "lower (search_term ?flt) = search_term ?flt"
    by code_simp
  have c: "text_dtype (map comando (df ?self))" and d: "text_dtype (map descricao (df ?self))"
    by code_simp+
  then have e: "search_term ?flt = [] \<or>
      (text_dtype (map comando (df ?self)) \<and> text_dtype (map descricao (df ?self)))"
    by simp
  have s: "spec_filter [git_init, git_log, git_commit, git_rebase] 1 157 ''init'' = [git_init]"
    by code_simp
  from filter_commands_lowercase_literal [OF a b e, of no_engine] a b c d s
  show ?thesis by simp
qed

text \<open>
  C1 as stated fails for a term in upper case: \<open>GIT\<close> occurs, ignoring case, in the name
  \<open>git init\<close>, and the filter returns no row, since only the cells are put in lower case.
\<close>

theorem filter_commands_uppercase_term:
  "fst (filter_commands no_engine \<lparr>df = [git_init]\<rparr>
          \<lparr>min_importance = 1, max_importance = 157, search_term = ''GIT''\<rparr>) = Inr [] \<and>
   spec_filter [git_init] 1 157 ''GIT'' = [git_init]"
  by code_simp

text \<open>
  C3.  The filter is claimed never to fail.  With the search term \<open>(\<close>, which the sidebar
  passes on unchanged, the filter raises whatever the data frame and the bounds are, and
  so does \<^verbatim>\<open>run\<close>: the compilation of the term as a regular expression raises
  \<^verbatim>\<open>re.error\<close> (on a frame whose column of names is not a text column the accessor
  \<^verbatim>\<open>.str\<close> has raised before).
\<close>

theorem open_paren_search_raises:
  "fst (filter_commands rx self \<lparr>min_importance = lo, max_importance = hi, search_term = ''(''\<rparr>)
     = Inl (if text_dtype (map comando (df self)) then Re_error else AttributeError) \<and>
   snd (run rx self \<lparr>selected_range = lvl, text_input = ''('', selected_index = i\<rparr>)
     = Raise (if text_dtype (map comando (df self)) then Re_error else AttributeError)"
proof -
  have c: "re_compile rx ''('' = Inl Re_error"
    by (simp add: re_compile_def is_special_def special_chars_def unterminated_group_def)
  have f: "fst (filter_commands rx self \<lparr>min_importance = a, max_importance = b, search_term = ''(''\<rparr>)
     = Inl (if text_dtype (map comando (df self)) then Re_error else AttributeError)" for a b
    by (simp add: filter_commands_def Let_def str_contains_def c)
  have t: "strip (lower ''('') = ''(''"
    by code_simp
  have "snd (run rx self \<lparr>selected_range = lvl, text_input = ''('', selected_index = i\<rparr>)
     = Raise (if text_dtype (map comando (df self)) then Re_error else AttributeError)"
    using f [of "fst (importance_ranges lvl)" "snd (importance_ranges lvl)"]
    by (auto simp: run_def render_sidebar_filters_def t Let_def split: prod.splits sum.splits)
  with f show ?thesis by simp
qed

text \<open>
  C6 (as amended).  With the bounds 1 and 157 and an empty search term the filter returns
  the rows whose rank lies in \<open>[1, 157]\<close>, unchanged and in their order; this is the whole
  data frame exactly when every rank lies in \<open>[1, 157]\<close>.
\<close>

theorem filter_commands_all_ranks_1_to_157:
  "fst (filter_commands rx self \<lparr>min_importance = 1, max_importance = 157, search_term = []\<rparr>)
     = Inr (filter (\<lambda>r. 1 \<le> ordem_importancia r \<and> ordem_importancia r \<le> 157) (df self)) \<and>
   ((fst (filter_commands rx self \<lparr>min_importance = 1, max_importance = 157, search_term = []\<rparr>)
       = Inr (df self))
    = list_all (\<lambda>r. 1 \<le> ordem_importancia r \<and> ordem_importancia r \<le> 157) (df self))"
  by (simp add: filter_commands_empty_term filter_id_conv list_all_iff)

text \<open>
  C6, instances: three commands of ranks 1, 5 and 50 are all returned; of the ranks 1,
  158, 5 and 50 the row of rank 158 is left out and the others keep their order.
\<close>

theorem filter_commands_all_ranks_1_to_157_witness:
  "fst (filter_commands no_engine \<lparr>df = [git_init, git_commit, git_rebase]\<rparr>
          \<lparr>min_importance = 1, max_importance = 157, search_term = []\<rparr>)
     = Inr [git_init, git_commit, git_rebase] \<and>
   list_all (\<lambda>r. 1 \<le> ordem_importancia r \<and> ordem_importancia r \<le> 157)
     [git_init, git_commit, git_rebase] \<and>
   fst (filter_commands no_engine \<lparr>df = [git_init, git_bisect, git_commit, git_rebase]\<rparr>
          \<lparr>min_importance = 1, max_importance = 157, search_term = []\<rparr>)
     = Inr [git_init, git_commit, git_rebase]"
proof -
  have a: "filter (\<lambda>r. 1 \<le> ordem_importancia r \<and> ordem_importancia r \<le> 157)
             (df \<lparr>df = [git_init, git_commit, git_rebase]\<rparr>) = [git_init, git_commit, git_rebase]"
    by code_simp
  have b: "filter (\<lambda>r. 1 \<le> ordem_importancia r \<and> ordem_importancia r \<le> 157)
             (df \<lparr>df = [git_init, git_bisect, git_commit, git_rebase]\<rparr>) =
           [git_init, git_commit, git_rebase]"
    by code_simp
  have c: "list_all (\<lambda>r. 1 \<le> ordem_importancia r \<and> ordem_importancia r \<le> 157)
     [git_init, git_commit, git_rebase]"
    by code_simp
  from filter_commands_all_ranks_1_to_157
         [of no_engine "\<lparr>df = [git_init, git_commit, git_rebase]\<rparr>"]
  have "fst (filter_commands no_engine \<lparr>df = [git_init, git_commit, git_rebase]\<rparr>
          \<lparr>min_importance = 1, max_importance = 157, search_term = []\<rparr>)
     = Inr [git_init, git_commit, git_rebase]"
    unfolding a by (rule conjunct1)
  moreover from filter_commands_all_ranks_1_to_157
         [of no_engine "\<lparr>df = [git_init, git_bisect, git_commit, git_rebase]\<rparr>"]
  have "fst (filter_commands no_engine \<lparr>df = [git_init, git_bisect, git_commit, git_rebase]\<rparr>
          \<lparr>min_importance = 1, max_importance = 157, search_term = []\<rparr>)
     = Inr [git_init, git_commit, git_rebase]"
    unfolding b by (rule conjunct1)
  ultimately show ?thesis using c by simp
qed

text \<open>
  C6 as stated fails for a data frame with a rank above 157: the row of rank 158 is
  dropped.
\<close>

theorem filter_commands_all_drops_rank_158:
  "fst (filter_commands no_engine \<lparr>df = [git_init, git_bisect]\<rparr>
          \<lparr>min_importance = 1, max_importance = 157, search_term = []\<rparr>) = Inr [git_init] \<and>
   df \<lparr>df = [git_init, git_bisect]\<rparr> \<noteq> [git_init]"
  by code_simp

text \<open>
  C8.  Filtering leaves the application object, and with it the loaded data frame, as
  it was: for every data frame, bounds and search term, also when the filter raises.
\<close>

theorem filter_commands_keeps_self: "snd (filter_commands rx self flt) = self"
  by (simp add: filter_commands_def Let_def split: sum.splits)

text \<open>C8, an instance.\<close>

theorem filter_commands_keeps_self_witness:
  "snd (filter_commands no_engine \<lparr>df = [git_init, git_commit, git_rebase]\<rparr>
          \<lparr>min_importance = 1, max_importance = 10, search_term = ''commit''\<rparr>)
     = \<lparr>df = [git_init, git_commit, git_rebase]\<rparr>"
  by (rule filter_commands_keeps_self)

subsection \<open>The search term of the sidebar\<close>

text \<open>
  C9.  The search term handed to the filter is the text of the input in lower case and
  stripped: it has no upper-case letter, the text put in lower case letter by letter is
  the term between two runs of whitespace, and the term neither starts nor ends with
  whitespace.  So a text of whitespace only gives the same filters as the empty text,
  and the filter then returns every row of the selected rank range.
\<close>

theorem whitespace_search_is_empty_search:
  "search_term (snd (render_sidebar_filters lvl txt)) = strip (lower txt) \<and>
   list_all (\<lambda>c. \<not> isupper c) (search_term (snd (render_sidebar_filters lvl txt))) \<and>
   (\<exists>pre post. list_all isspace pre \<and> list_all isspace post \<and>
      map lower_char txt = pre @ search_term (snd (render_sidebar_filters lvl txt)) @ post) \<and>
   (search_term (snd (render_sidebar_filters lvl txt)) \<noteq> [] \<longrightarrow>
      \<not> isspace (hd (search_term (snd (render_sidebar_filters lvl txt)))) \<and>
      \<not> isspace (last (search_term (snd (render_sidebar_filters lvl txt))))) \<and>
   (list_all isspace txt \<longrightarrow>
      snd (render_sidebar_filters lvl txt) = snd (render_sidebar_filters lvl []) \<and>
      fst (filter_commands rx self (snd (render_sidebar_filters lvl txt))) =
        Inr (filter (\<lambda>r. fst (importance_ranges lvl) \<le> ordem_importancia r \<and>
                          ordem_importancia r \<le> snd (importance_ranges lvl)) (df self)))"
proof -
  have n: "search_term (snd (render_sidebar_filters lvl t)) = strip (lower t)" for t
    by (simp add: render_sidebar_filters_def split: prod.splits)
  have e: "strip (lower []) = []" by (simp add: strip_def lower_def)
  have u: "list_all (\<lambda>c. \<not> isupper c) (strip (lower txt))"
    unfolding list_all_iff
  proof
    fix c assume "c \<in> set (strip (lower txt))"
    then have "c \<in> set (lower txt)" by (rule set_strip)
    then show "\<not> isupper c" by (auto simp: lower_def isupper_lower_char)
  qed
  have s: "\<exists>pre post. list_all isspace pre \<and> list_all isspace post \<and>
      map lower_char txt = pre @ strip (lower txt) @ post"
    using strip_sandwich [of "lower txt"] by (simp add: lower_def)
  have w: "list_all isspace txt \<longrightarrow>
      snd (render_sidebar_filters lvl txt) = snd (render_sidebar_filters lvl []) \<and>
      fst (filter_commands rx self (snd (render_sidebar_filters lvl txt))) =
        Inr (filter (\<lambda>r. fst (importance_ranges lvl) \<le> ordem_importancia r \<and>
                          ordem_importancia r \<le> snd (importance_ranges lvl)) (df self))"
    by (auto simp: n strip_whitespace e filter_commands_empty_term)
       (auto simp: render_sidebar_filters_def strip_whitespace e split: prod.splits)
  have a1: "search_term (snd (render_sidebar_filters lvl txt)) = strip (lower txt)"
    by (rule n)
  have a2: "list_all (\<lambda>c. \<not> isupper c) (search_term (snd (render_sidebar_filters lvl txt)))"
    unfolding n by (rule u)
  have a3: "\<exists>pre post. list_all isspace pre \<and> list_all isspace post \<and>
      map lower_char txt = pre @ search_term (snd (render_sidebar_filters lvl txt)) @ post"
    unfolding n by (rule s)
  have a4: "search_term (snd (render_sidebar_filters lvl txt)) \<noteq> [] \<longrightarrow>
      \<not> isspace (hd (search_term (snd (render_sidebar_filters lvl txt)))) \<and>
      \<not> isspace (last (search_term (snd (render_sidebar_filters lvl txt))))"
    unfolding n using strip_ends [of "lower txt"] by blast
  show ?thesis
    by (intro conjI; fact)
qed

text \<open>
  C9, instances: the text \<open>CoMMit\<close> between blanks and a tabulator gives the term
  \<open>commit\<close>, which finds the command of that name; a space, a tabulator and a space give
  the empty term, which finds every command of the range.
\<close>

theorem whitespace_search_is_empty_search_witness:
  "search_term (snd (render_sidebar_filters Essenciais
      ([CHR '' '', CHR '' ''] @ ''CoMMit Am'' @ [CHR 0x09, CHR '' '']))) = ''commit am'' \<and>
   search_term (snd (render_sidebar_filters Essenciais ('' CoMMit ''))) = ''commit'' \<and>
   fst (filter_commands no_engine \<lparr>df = [git_init, git_commit, git_rebase]\<rparr>
          (snd (render_sidebar_filters Essenciais '' CoMMit ''))) = Inr [git_commit] \<and>
   list_all isspace [CHR '' '', CHR 0x09, CHR '' ''] \<and>
   snd (render_sidebar_filters Essenciais [CHR '' '', CHR 0x09, CHR '' '']) =
     \<lparr>min_importance = 1, max_importance = 10, search_term = []\<rparr> \<and>
   fst (filter_commands no_engine \<lparr>df = [git_init, git_commit, git_rebase]\<rparr>
          (snd (render_sidebar_filters Essenciais [CHR '' '', CHR 0x09, CHR '' ''])))
     = Inr [git_init, git_commit]"
proof -
  let ?self = "\<lparr>df = [git_init, git_commit, git_rebase]\<rparr>"
  have t1: "strip (lower ([CHR '' '', CHR '' ''] @ ''CoMMit Am'' @ [CHR 0x09, CHR '' ''])) =
      ''commit am''"
    by code_simp
  have t2: "strip (lower '' CoMMit '') = ''commit''"
    by code_simp
  have c: "fst (filter_commands no_engine ?self (snd (render_sidebar_filters Essenciais '' CoMMit '')))
      = Inr [git_commit]"
    by code_simp
  have a: "list_all isspace [CHR '' '', CHR 0x09, CHR '' '']"
    by code_simp
  have e: "snd (render_sidebar_filters Essenciais []) =
     \<lparr>min_importance = 1, max_importance = 10, search_term = []\<rparr>"
    by code_simp
  have f: "filter (\<lambda>r. fst (importance_ranges Essenciais) \<le> ordem_importancia r \<and>
                       ordem_importancia r \<le> snd (importance_ranges Essenciais))
             (df ?self) = [git_init, git_commit]"
    by code_simp
  from whitespace_search_is_empty_search
         [of Essenciais "[CHR '' '', CHR '' ''] @ ''CoMMit Am'' @ [CHR 0x09, CHR '' '']"]
  have n1: "search_term (snd (render_sidebar_filters Essenciais
      ([CHR '' '', CHR '' ''] @ ''CoMMit Am'' @ [CHR 0x09, CHR '' '']))) = ''commit am''"
    unfolding t1 by (rule conjunct1)
  from whitespace_search_is_empty_search [of Essenciais "'' CoMMit ''"]
  have n2: "search_term (snd (render_sidebar_filters Essenciais ('' CoMMit ''))) = ''commit''"
    unfolding t2 by (rule conjunct1)
  from whitespace_search_is_empty_search
         [of Essenciais "[CHR '' '', CHR 0x09, CHR '' '']" no_engine ?self] a
  have w: "snd (render_sidebar_filters Essenciais [CHR '' '', CHR 0x09, CHR '' '']) =
             snd (render_sidebar_filters Essenciais [])"
    and v: "fst (filter_commands no_engine ?self
                  (snd (render_sidebar_filters Essenciais [CHR '' '', CHR 0x09, CHR '' '']))) =
             Inr (filter (\<lambda>r. fst (importance_ranges Essenciais) \<le> ordem_importancia r \<and>
                       ordem_importancia r \<le> snd (importance_ranges Essenciais))
             (df ?self))"
    by blast+
  from n1 n2 c a w [unfolded e] v [unfolded f] show ?thesis by (intro conjI)
qed

subsection \<open>Statistics\<close>

lemma count_partition:
  "length (filter (\<lambda>r. f r \<le> (10::int)) xs) +
   length (filter (\<lambda>r. f r > 10 \<and> f r \<le> 30) xs) +
   length (filter (\<lambda>r. f r > 30) xs) = length xs"
  by (induction xs) auto

text \<open>
  C5.  The three counts of the statistics, taken over the whole data frame (rank at
  most 10, rank above 10 and at most 30, rank above 30), add up to the number of rows.
\<close>

theorem statistics_counts_sum:
  "essential self + intermediate self + advanced self = length (df self)"
  unfolding essential_def intermediate_def advanced_def boolean_index_map
  by (rule count_partition)

text \<open>C5, an instance: ranks 1, 5 and 50 give the counts 2, 0 and 1.\<close>

theorem statistics_counts_sum_witness:
  "essential \<lparr>df = [git_init, git_commit, git_rebase]\<rparr> = 2 \<and>
   intermediate \<lparr>df = [git_init, git_commit, git_rebase]\<rparr> = 0 \<and>
   advanced \<lparr>df = [git_init, git_commit, git_rebase]\<rparr> = 1 \<and>
   length (df \<lparr>df = [git_init, git_commit, git_rebase]\<rparr>) = 3"
proof -
  have "essential \<lparr>df = [git_init, git_commit, git_rebase]\<rparr> = 2"
    and "intermediate \<lparr>df = [git_init, git_commit, git_rebase]\<rparr> = 0"
    by code_simp+
  with statistics_counts_sum [of "\<lparr>df = [git_init, git_commit, git_rebase]\<rparr>"]
  show ?thesis by simp
qed

subsection \<open>Selection\<close>

text \<open>
  When every row of the filtered frame has its description, the labels are built, and
  for a selected position \<open>i\<close> with \<open>0 \<le> i < n\<close> the selector returns the row at
  position \<open>i\<close> with its four fields as stored.
\<close>

lemma command_options_present:
  "list_all (\<lambda>r. descricao r \<noteq> NaN) frame \<Longrightarrow> \<exists>labels. command_options frame = Inr labels"
proof (induction frame)
  case Nil
  show ?case by simp
next
  case (Cons r frame)
  then obtain d labels where "descricao r = Str d" "command_options frame = Inr labels"
    by (cases "descricao r") auto
  then show ?case by (simp add: display_text_def)
qed

lemma selector_returns_row:
  assumes "list_all (\<lambda>r. descricao r \<noteq> NaN) filtered_df"
    and "0 \<le> i" and "i < int (length filtered_df)"
  shows "snd (render_command_selector filtered_df (Some i)) = Return (Some (filtered_df ! nat i))"
proof -
  from assms have "filtered_df \<noteq> []" by auto
  moreover from assms have "iloc filtered_df i = Inr (filtered_df ! nat i)"
    by (simp add: iloc_def)
  moreover from assms(1) obtain labels where "command_options filtered_df = Inr labels"
    using command_options_present by blast
  ultimately show ?thesis
    by (simp add: render_command_selector_def Let_def)
qed

text \<open>A row without description in the filtered frame makes the loop of the labels raise.\<close>

lemma command_options_missing:
  "list_ex (\<lambda>r. descricao r = NaN) frame \<Longrightarrow> command_options frame = Inl TypeError"
proof (induction frame)
  case Nil
  then show ?case by simp
next
  case (Cons r frame)
  show ?case
  proof (cases "descricao r")
    case NaN
    then show ?thesis by (simp add: display_text_def)
  next
    case (Str d)
    with Cons show ?thesis by (simp add: display_text_def)
  qed
qed

lemma selector_raises:
  assumes "list_ex (\<lambda>r. descricao r = NaN) filtered_df"
  shows "render_command_selector filtered_df sel = ([Selector_heading], Raise TypeError)"
proof -
  from assms have "filtered_df \<noteq> []" by auto
  with command_options_missing [OF assms] show ?thesis
    by (simp add: render_command_selector_def)
qed

text \<open>
  C7.  Selecting from a filtered frame is claimed to succeed for every position in
  range.  In a file whose row \<open>git log\<close> has an empty description cell, the frame of the
  essential commands holds that row: the selector raises \<^verbatim>\<open>TypeError\<close> while it builds the
  labels, whatever position is selected, and so does \<^verbatim>\<open>run\<close>; the filter, with a search
  term, takes the same row as a row that matches nothing in its description.
\<close>

theorem selector_missing_description_raises:
  "fst (filter_commands no_engine \<lparr>df = [git_init, git_commit, git_log]\<rparr>
          \<lparr>min_importance = 1, max_importance = 10, search_term = []\<rparr>)
     = Inr [git_init, git_commit, git_log] \<and>
   render_command_selector [git_init, git_commit, git_log] sel =
     ([Selector_heading], Raise TypeError) \<and>
   snd (run no_engine \<lparr>df = [git_init, git_commit, git_log]\<rparr>
          \<lparr>selected_range = Essenciais, text_input = [], selected_index = sel\<rparr>)
     = Raise TypeError \<and>
   fst (filter_commands no_engine \<lparr>df = [git_init, git_commit, git_log]\<rparr>
          \<lparr>min_importance = 1, max_importance = 10, search_term = ''log''\<rparr>)
     = Inr [git_log]"
proof -
  let ?self = "\<lparr>df = [git_init, git_commit, git_log]\<rparr>"
  have f: "fst (filter_commands no_engine ?self
          \<lparr>min_importance = 1, max_importance = 10, search_term = []\<rparr>)
     = Inr [git_init, git_commit, git_log]"
    by code_simp
  have g: "fst (filter_commands no_engine ?self
          \<lparr>min_importance = 1, max_importance = 10, search_term = ''log''\<rparr>) = Inr [git_log]"
    by code_simp
  have m: "list_ex (\<lambda>r. descricao r = NaN) [git_init, git_commit, git_log]"
    by (simp add: git_log_def)
  have s: "render_command_selector [git_init, git_commit, git_log] sel =
     ([Selector_heading], Raise TypeError)"
    by (rule selector_raises [OF m])
  have k: "filter_commands no_engine ?self
          \<lparr>min_importance = 1, max_importance = 10, search_term = []\<rparr>
     = (Inr [git_init, git_commit, git_log], ?self)"
    using f filter_commands_empty_term by (simp add: prod_eq_iff filter_commands_def Let_def)
  have r: "snd (run no_engine ?self
          \<lparr>selected_range = Essenciais, text_input = [], selected_index = sel\<rparr>)
     = Raise TypeError"
    by (simp add: run_def render_sidebar_filters_def strip_def lower_def k s Let_def)
  from f s r g show ?thesis by simp
qed

subsection \<open>Usage examples\<close>

lemma render_examples_filter:
  "render_examples frs = map St_code (filter (\<lambda>e. e \<noteq> []) (map strip frs))"
  by (induction frs) (auto simp: Let_def)

lemma split_acc_nonempty: "split_acc acc s \<noteq> []"
  by (induction acc s rule: split_acc.induct) auto

lemma join_Cons: "fs \<noteq> [] \<Longrightarrow> join_comma_space (f # fs) = f @ '', '' @ join_comma_space fs"
  by (cases fs) auto

lemma join_split_acc: "join_comma_space (split_acc acc s) = rev acc @ s"
  by (induction acc s rule: split_acc.induct) (auto simp: join_Cons split_acc_nonempty)

lemma sublist2_snoc:
  "sublist [a, b] (u @ [x, y]) = (sublist [a, b] (u @ [x]) \<or> (x = a \<and> y = b))"
proof (induction u)
  case Nil
  show ?case by (auto simp: sublist_Cons_right)
next
  case (Cons c u)
  have p: "prefix [a, b] (c # u @ [x, y]) =
      (prefix [a, b] (c # u @ [x]) \<or> (u = [] \<and> c = a \<and> x = b))"
    by (cases u) (auto simp: prefix_Cons)
  have q: "u = [] \<Longrightarrow> c = a \<Longrightarrow> x = b \<Longrightarrow> sublist [a, b] ((c # u) @ [x])"
    by simp
  show ?case
    using Cons p q by (auto simp: sublist_Cons_right)
qed

lemma split_acc_no_separator:
  "\<not> sublist '', '' (rev acc @ take 1 s) \<Longrightarrow>
   list_all (\<lambda>f. \<not> sublist '', '' f) (split_acc acc s)"
proof (induction acc s rule: split_acc.induct)
  case (1 acc x y zs)
  from "1.prems" have h: "\<not> sublist '', '' (rev acc @ [x])" by simp
  show ?case
  proof (cases "x = CHR '','' \<and> y = CHR '' ''")
    case True
    have "\<not> sublist '', '' ([] @ take 1 zs)"
      by (cases zs) (auto simp: sublist_Cons_right)
    with True "1.IH"(1) have "list_all (\<lambda>f. \<not> sublist '', '' f) (split_acc [] zs)"
      by simp
    moreover from h have "\<not> sublist '', '' (rev acc)"
      by (auto simp: sublist_append)
    ultimately show ?thesis using True by simp
  next
    case False
    with h have "\<not> sublist '', '' (rev (x # acc) @ take 1 (y # zs))"
      using sublist2_snoc [of "CHR '',''" "CHR '' ''" "rev acc" x y] by auto
    with False "1.IH"(2) show ?thesis by auto
  qed
next
  case (2 acc x)
  then show ?case by simp
next
  case (3 acc)
  then show ?case by simp
qed

text \<open>
  The details of a row whose usage cell holds a text end with its usage examples: the
  text is split at each comma followed by a space (the fragments, joined by this
  separator, give the text back, and no fragment contains the separator), every fragment
  is stripped, the fragments that are then empty are left out, and the others are shown
  in their order.
\<close>

lemma usage_examples_rendered:
  assumes "como_pode_ser_usado row = Str usage"
  shows "render_command_details row =
     ([Command_heading (format_cell (comando row)),
       Importance_badge (get_importance_color (ordem_importancia row)) (ordem_importancia row),
       Description (format_cell (descricao row)),
       Usage_heading] @
      map St_code (filter (\<lambda>e. e \<noteq> []) (map strip (split_comma_space usage))),
      Return ()) \<and>
   join_comma_space (split_comma_space usage) = usage \<and>
   list_all (\<lambda>f. \<not> sublist '', '' f) (split_comma_space usage)"
proof -
  have "\<not> sublist '', '' (rev [] @ take 1 s)" for s :: string
    by (cases s) (auto simp: sublist_Cons_right)
  then show ?thesis
    using assms
    by (simp add: render_command_details_def render_examples_filter split_comma_space_def
        join_split_acc split_acc_no_separator)
qed

text \<open>
  An instance: three fragments, the second of which is a single space and the third of
  which has blanks around it.
\<close>

lemma usage_examples_rendered_example:
  "split_comma_space ''git rebase main,  ,   git rebase -i HEAD~3  '' =
     [''git rebase main'', '' '', ''  git rebase -i HEAD~3  ''] \<and>
   render_command_details git_rebase =
     ([Command_heading ''git rebase'', Importance_badge ''#3498DB'' 50,
       Description ''Reaplica commits sobre outra base'', Usage_heading,
       St_code ''git rebase main'', St_code ''git rebase -i HEAD~3''], Return ())"
  by code_simp

text \<open>
  C10.  The usage examples are claimed to be derived for every selected entry.  In a
  file whose row \<open>git status\<close> has an empty usage cell, the row is selected without error
  and its heading, badge and description are shown; then \<^verbatim>\<open>.split\<close> raises
  \<^verbatim>\<open>AttributeError\<close>, and so does \<^verbatim>\<open>run\<close>.
\<close>

theorem details_missing_usage_raises:
  "snd (render_command_selector [git_init, git_status, git_commit] (Some 1)) =
     Return (Some git_status) \<and>
   render_command_details git_status =
     ([Command_heading ''git status'', Importance_badge ''#E74C3C'' 3,
       Description ''Mostra o estado da arvore de trabalho'', Usage_heading],
      Raise AttributeError) \<and>
   snd (run no_engine \<lparr>df = [git_init, git_status, git_commit]\<rparr>
          \<lparr>selected_range = Essenciais, text_input = [], selected_index = Some 1\<rparr>)
     = Raise AttributeError"
  by code_simp

subsection \<open>Loading\<close>

lemma load_error_stops:
  assumes "load_error file = Some m"
  shows "load_data argsort file = ([St_error m], Stop)"
  using assms
  by (auto simp: load_error_def load_data_def validate_data_def list_all_iff
      split: csv_file.splits if_splits)

text \<open>The load errors are all the ways in which loading does not return.\<close>

lemma load_data_returns_iff:
  "(\<exists>shown app. load_data argsort file = (shown, Return app)) = (load_error file = None)"
  by (auto simp: load_error_def load_data_def validate_data_def list_all_iff
      split: csv_file.splits if_splits)

text \<open>
  C4.  When loading fails (the file is missing, it cannot be parsed, or a required
  column is absent), the constructor stops the script without an application object, and
  all the script has shown is the page configuration and the error message: neither the
  filter nor a presenter has run.
\<close>

theorem load_failure_halts:
  assumes "load_error file = Some m"
  shows "init argsort file = ([Page_config, St_error m], Stop) \<and>
         script rx argsort file inp = ([Page_config, St_error m], Stop)"
  by (simp add: init_def main_def script_def load_error_stops [OF assms])

text \<open>
  C4, instances: no file, a file that \<^verbatim>\<open>read_csv\<close> rejects, and a table without the
  columns of the description and of the rank.
\<close>

theorem load_failure_halts_witness:
  "load_error Missing = Some File_not_found \<and>
   script no_engine stable_argsort Missing example_input =
     ([Page_config, St_error File_not_found], Stop) \<and>
   load_error (Unreadable ''No columns to parse from file'') =
     Some (Load_failed (Csv_error ''No columns to parse from file'')) \<and>
   script no_engine stable_argsort (Unreadable ''No columns to parse from file'') example_input =
     ([Page_config, St_error (Load_failed (Csv_error ''No columns to parse from file''))], Stop) \<and>
   load_error (Table [''comando'', ''como_pode_ser_usado''] [git_init]) = Some Invalid_structure \<and>
   script no_engine stable_argsort (Table [''comando'', ''como_pode_ser_usado''] [git_init])
     example_input = ([Page_config, St_error Invalid_structure], Stop)"
proof -
  have a: "load_error Missing = Some File_not_found"
    by (simp add: load_error_def)
  have b: "load_error (Unreadable ''No columns to parse from file'') =
     Some (Load_failed (Csv_error ''No columns to parse from file''))"
    by (simp add: load_error_def)
  have c: "load_error (Table [''comando'', ''como_pode_ser_usado''] [git_init]) =
     Some Invalid_structure"
    by code_simp
  from load_failure_halts [OF a, of stable_argsort no_engine example_input]
    load_failure_halts [OF b, of stable_argsort no_engine example_input]
    load_failure_halts [OF c, of stable_argsort no_engine example_input] a b c
  show ?thesis by simp
qed

subsection \<open>The order of the loaded data frame\<close>

text \<open>
  With a sorting routine that keeps its contract, the loaded frame is in non-decreasing
  order of rank and has the rows of the table.  The contract says nothing on the order of
  rows of equal rank.
\<close>

lemma mset_map_nth:
  assumes "mset idx = mset [0..<length xs]"
  shows "mset (map (\<lambda>i. xs ! i) idx) = mset xs"
proof -
  have "mset (map (\<lambda>i. xs ! i) idx) = image_mset (\<lambda>i. xs ! i) (mset idx)" by simp
  also have "\<dots> = mset (map (\<lambda>i. xs ! i) [0..<length xs])" by (simp add: assms)
  also have "\<dots> = mset xs" by (simp add: map_nth)
  finally show ?thesis .
qed

lemma sort_values_sorted_perm:
  assumes "argsort_contract argsort"
  shows "sorted (map ordem_importancia (sort_values argsort frame)) \<and>
         mset (sort_values argsort frame) = mset frame"
proof -
  let ?keys = "map ordem_importancia frame"
  let ?idx = "argsort ?keys"
  from assms have p: "mset ?idx = mset [0..<length frame]"
    and s: "sorted (map (\<lambda>i. ?keys ! i) ?idx)"
    by (auto simp: argsort_contract_def)
  from p have "set ?idx = {0..<length frame}"
    by (metis mset_eq_setD set_upt)
  then have "map (\<lambda>i. ?keys ! i) ?idx = map (\<lambda>i. ordem_importancia (frame ! i)) ?idx"
    by (intro map_cong) auto
  with s have "sorted (map ordem_importancia (sort_values argsort frame))"
    by (simp add: sort_values_def comp_def)
  moreover have "mset (sort_values argsort frame) = mset frame"
    unfolding sort_values_def using p by (rule mset_map_nth)
  ultimately show ?thesis by simp
qed

lemma stable_argsort_contract: "argsort_contract stable_argsort"
  by (simp add: argsort_contract_def stable_argsort_def)

end
